theory Spec2Isabelle
  imports Main
begin

section \<open>Strings and characters\<close>

text \<open>
  JavaScript strings are modelled as \<^typ>\<open>string\<close>: the sequence of UTF-8 bytes of the
  text. All characters the program itself inspects (the digits of a variant id, the
  delimiters of a URL) are ASCII.
\<close>

definition is_digit :: "char \<Rightarrow> bool" where
  "is_digit c = (c \<in> set ''0123456789'')"

definition is_lower :: "char \<Rightarrow> bool" where
  "is_lower c = (c \<in> set ''abcdefghijklmnopqrstuvwxyz'')"

definition is_upper :: "char \<Rightarrow> bool" where
  "is_upper c = (c \<in> set ''ABCDEFGHIJKLMNOPQRSTUVWXYZ'')"

definition is_alpha :: "char \<Rightarrow> bool" where
  "is_alpha c = (is_lower c \<or> is_upper c)"

definition is_alnum :: "char \<Rightarrow> bool" where
  "is_alnum c = (is_alpha c \<or> is_digit c)"

definition to_lower :: "char \<Rightarrow> char" where
  "to_lower c = (if is_upper c then char_of (of_char c + (32::nat)) else c)"

text \<open>The decimal rendering of a number, as a template literal produces it.\<close>

fun digits_of :: "nat \<Rightarrow> string" where
  "digits_of n =
     (if n < 10 then [''0123456789'' ! n]
      else digits_of (n div 10) @ [''0123456789'' ! (n mod 10)])"

declare digits_of.simps [simp del]

text \<open>Splitting a string at every character that satisfies \<open>P\<close> (the separators are dropped).\<close>

fun split_on :: "(char \<Rightarrow> bool) \<Rightarrow> string \<Rightarrow> string list" where
  "split_on P [] = [[]]"
| "split_on P (c # cs) =
     (if P c then [] # split_on P cs
      else (case split_on P cs of [] \<Rightarrow> [[c]] | s # ss \<Rightarrow> (c # s) # ss))"


section \<open>The platform's URL class\<close>

text \<open>
  The program builds every redirect with the platform's \<open>URL\<close> class: \<open>new URL(s)\<close>,
  the \<open>pathname\<close> setter, \<open>searchParams.append\<close> and \<open>toString()\<close>. The class is not
  part of the repository; it is modelled here after the URL Standard, for the URLs a shop
  origin gives rise to: scheme \<open>http\<close> or \<open>https\<close>, then \<open>//\<close>, then a host name made of
  lower-case letters, digits, \<open>-\<close> and \<open>.\<close>, then an optional path. Inside this fragment the
  functions below follow the standard's parser and serialiser step by step. An input with
  a scheme that lies outside the fragment (another scheme, no \<open>//\<close> after the scheme,
  credentials, a port, an IP address, an upper-case or internationalised host name, a
  query or a fragment) is answered with \<open>Outside_model\<close>: for such an input nothing is
  asserted about the platform, whether it would accept the input or reject it.
  An input without a scheme is rejected by the platform with a \<open>TypeError\<close>, and so it is
  here. Since no URL of the fragment has a query when it is parsed, the query of a URL is
  kept as its list of parameters, which is empty until \<open>searchParams.append\<close> is
  called, and the fragment is left out.
\<close>

text \<open>
  What a call can throw: the \<open>TypeError\<close> of the URL constructor, the string that
  \<open>handleCodeScan\<close> throws for a destination it does not know, and the error with which
  \<open>__query\<close> rejects its promise. \<open>Outside_model\<close> is no exception of the program: it
  marks an input of the URL class that the model does not cover.
\<close>

datatype thrown =
    TypeError_Invalid_URL
  | Thrown_string string
  | Query_rejected string
  | Outside_model

record URL =
  scheme :: string
  host :: string
  path :: "string list"
  searchParams :: "(string \<times> string) list"

text \<open>
  The parser first strips leading and trailing C0 control characters and spaces, and
  removes every tab and newline.
\<close>

definition c0_control_or_space :: "char \<Rightarrow> bool" where
  "c0_control_or_space c = ((of_char c :: nat) \<le> 32)"

definition tab_or_newline :: "char \<Rightarrow> bool" where
  "tab_or_newline c = (c = CHR 0x09 \<or> c = CHR 0x0A \<or> c = CHR 0x0D)"

definition url_trim :: "string \<Rightarrow> string" where
  "url_trim s =
     filter (\<lambda>c. \<not> tab_or_newline c)
       (rev (dropWhile c0_control_or_space (rev (dropWhile c0_control_or_space s))))"

text \<open>
  Scheme start state and scheme state: a letter, then letters, digits, \<open>+\<close>, \<open>-\<close>, \<open>.\<close>,
  then a colon. The scheme is lower-cased. Anything else has no scheme.
\<close>

definition scheme_char :: "char \<Rightarrow> bool" where
  "scheme_char c = (is_alnum c \<or> c = CHR ''+'' \<or> c = CHR ''-'' \<or> c = CHR ''.'')"

definition parse_scheme :: "string \<Rightarrow> (string \<times> string) option" where
  "parse_scheme s =
     (case s of
        [] \<Rightarrow> None
      | c # cs \<Rightarrow>
          if is_alpha c then
            (case dropWhile scheme_char cs of
               [] \<Rightarrow> None
             | d # rest \<Rightarrow>
                 if d = CHR '':'' then Some (map to_lower (c # takeWhile scheme_char cs), rest)
                 else None)
          else None)"

text \<open>Percent-encoding of a byte: \<open>%\<close> and two upper-case hexadecimal digits.\<close>

definition percent_encode :: "char \<Rightarrow> string" where
  "percent_encode c =
     [CHR ''%'', ''0123456789ABCDEF'' ! ((of_char c :: nat) div 16),
      ''0123456789ABCDEF'' ! ((of_char c :: nat) mod 16)]"

text \<open>
  The path percent-encode set, as the runtime applies it: C0 controls, everything above
  \<open>~\<close>, space, \<open>"\<close>, \<open>#\<close>, \<open><\<close>, \<open>>\<close>, \<open>?\<close>, the backquote, \<open>{\<close> and \<open>}\<close>. The
  circumflex accent stays as it is in a path.
\<close>

definition in_path_percent_encode_set :: "char \<Rightarrow> bool" where
  "in_path_percent_encode_set c =
     ((of_char c :: nat) < 32 \<or> (of_char c :: nat) > 126 \<or>
      c \<in> {CHR 0x20, CHR 0x22, CHR 0x23, CHR 0x3C, CHR 0x3E, CHR 0x3F, CHR 0x60,
           CHR 0x7B, CHR 0x7D})"

definition path_encode :: "string \<Rightarrow> string" where
  "path_encode s =
     concat (map (\<lambda>c. if in_path_percent_encode_set c then percent_encode c else [c]) s)"

text \<open>Single-dot and double-dot path segments, with \<open>%2e\<close> in either case for a dot.\<close>

definition is_single_dot :: "string \<Rightarrow> bool" where
  "is_single_dot b = (b = ''.'' \<or> map to_lower b = ''%2e'')"

definition is_double_dot :: "string \<Rightarrow> bool" where
  "is_double_dot b =
     (b = ''..'' \<or> map to_lower b \<in> {''.%2e'', ''%2e.'', ''%2e%2e''})"

definition is_slash :: "char \<Rightarrow> bool" where
  "is_slash c = (c = CHR ''/'' \<or> c = CHR 0x5C)"

text \<open>
  Path start state: one leading slash or backslash is consumed. Path state, for a special
  scheme: the rest is cut at every slash and backslash, and the segments are taken in
  order. A double-dot segment removes the last segment of the path so far, a single-dot
  segment adds nothing, and either of them, when it is the last segment, leaves an empty
  segment behind; every other segment is appended percent-encoded.
\<close>

definition path_segments :: "string \<Rightarrow> string list" where
  "path_segments v =
     split_on is_slash (case v of [] \<Rightarrow> [] | c # r \<Rightarrow> if is_slash c then r else v)"

fun path_state :: "string list \<Rightarrow> string list \<Rightarrow> string list" where
  "path_state p [] = p"
| "path_state p (s # ss) =
     path_state
       (let b = path_encode s in
        if is_double_dot b then butlast p @ (if ss = [] then [[]] else [])
        else if is_single_dot b then p @ (if ss = [] then [[]] else [])
        else p @ [b])
       ss"

text \<open>The hosts of the modelled fragment.\<close>

definition host_char :: "char \<Rightarrow> bool" where
  "host_char c = (is_lower c \<or> is_digit c \<or> c = CHR ''-'' \<or> c = CHR ''.'')"

definition modelled_host :: "string \<Rightarrow> bool" where
  "modelled_host h =
     (list_all host_char h \<and>
      list_all (\<lambda>l. l \<noteq> [] \<and> take 4 l \<noteq> ''xn--'') (split_on (\<lambda>c. c = CHR ''.'') h) \<and>
      (case last (split_on (\<lambda>c. c = CHR ''.'') h) of [] \<Rightarrow> False | c # _ \<Rightarrow> is_lower c))"

definition is_delim :: "char \<Rightarrow> bool" where
  "is_delim c = (is_slash c \<or> c = CHR ''?'' \<or> c = CHR ''#'')"

text \<open>\<open>new URL(input)\<close>, without a base URL.\<close>

definition new_URL :: "string \<Rightarrow> thrown + URL" where
  "new_URL input =
     (case parse_scheme (url_trim input) of
        None \<Rightarrow> Inl TypeError_Invalid_URL
      | Some (sch, rest) \<Rightarrow>
          if sch \<noteq> ''http'' \<and> sch \<noteq> ''https'' then Inl Outside_model
          else if take 2 rest \<noteq> ''//'' then Inl Outside_model
          else
            (let h = takeWhile (\<lambda>c. \<not> is_delim c) (drop 2 rest);
                 t = dropWhile (\<lambda>c. \<not> is_delim c) (drop 2 rest)
             in if \<not> modelled_host h \<or> CHR ''?'' \<in> set t \<or> CHR ''#'' \<in> set t
                then Inl Outside_model
                else Inr \<lparr>scheme = sch, host = h, path = path_state [] (path_segments t),
                          searchParams = []\<rparr>))"

text \<open>
  The \<open>pathname\<close> setter: the path is emptied and the value, with tabs and newlines
  removed, is parsed from the path start state. In this state \<open>?\<close> and \<open>#\<close> do not end
  the path: they are percent-encoded like any other character of the set.
\<close>

definition set_pathname :: "URL \<Rightarrow> string \<Rightarrow> URL" where
  "set_pathname url v =
     url\<lparr>path := path_state [] (path_segments (filter (\<lambda>c. \<not> tab_or_newline c) v))\<rparr>"

text \<open>
  \<open>searchParams.append(name, value)\<close> adds a pair to the URL's list of query parameters;
  the query of the URL is from then on the serialisation of that list.
\<close>

definition searchParams_append :: "URL \<Rightarrow> string \<Rightarrow> string \<Rightarrow> URL" where
  "searchParams_append url name v = url\<lparr>searchParams := searchParams url @ [(name, v)]\<rparr>"

text \<open>
  The \<open>application/x-www-form-urlencoded\<close> serialiser: letters, digits, \<open>*\<close>, \<open>-\<close>, \<open>.\<close>
  and \<open>_\<close> stand for themselves, a space becomes \<open>+\<close>, every other byte is
  percent-encoded; pairs are written \<open>name=value\<close> and joined with \<open>&\<close>.
\<close>

definition urlencoded_plain :: "char \<Rightarrow> bool" where
  "urlencoded_plain c =
     (is_alnum c \<or> c = CHR ''*'' \<or> c = CHR ''-'' \<or> c = CHR ''.'' \<or> c = CHR ''_'')"

definition urlencoded :: "string \<Rightarrow> string" where
  "urlencoded s =
     concat (map (\<lambda>c. if urlencoded_plain c then [c]
                      else if c = CHR 0x20 then ''+''
                      else percent_encode c) s)"

fun urlencoded_serialize :: "(string \<times> string) list \<Rightarrow> string" where
  "urlencoded_serialize [] = []"
| "urlencoded_serialize [(n, v)] = urlencoded n @ ''='' @ urlencoded v"
| "urlencoded_serialize ((n, v) # ps) =
     urlencoded n @ ''='' @ urlencoded v @ ''&'' @ urlencoded_serialize ps"

text \<open>The URL serialiser behind \<open>toString()\<close>.\<close>

definition toString :: "URL \<Rightarrow> string" where
  "toString url =
     scheme url @ ''://'' @ host url @ concat (map (\<lambda>s. CHR ''/'' # s) (path url)) @
     (if searchParams url = [] then [] else CHR ''?'' # urlencoded_serialize (searchParams url))"


section \<open>The QR code datastore\<close>

text \<open>
  A \<open>QRCode\<close> object has the fields of the type of that name; \<open>createdAt\<close> is the
  remaining column of the table, which \<open>SELECT *\<close> returns with the others. The
  identifier is the \<open>INTEGER PRIMARY KEY AUTOINCREMENT\<close> column, a natural number, and
  the scan counter is a natural number (a counter that starts at 0 and grows by one per
  scan stays far below the 64 bits of the column). The field \<open>handle\<close> holds the product
  handle, the text of the column of that name. \<open>imageUrl\<close> is not a column: a row of
  the table has none, and \<open>__addImageUrl\<close> sets it. The leading underscores of the
  private members are dropped, and \<open>id\<close> is written \<open>id'\<close>.
\<close>

record QRCode =
  id' :: nat
  shopDomain :: string
  title :: string
  productId :: string
  variantId :: string
  handle :: string
  discountId :: string
  discountCode :: string
  destination :: string
  scans :: nat
  createdAt :: string
  imageUrl :: "string option"

text \<open>
  The table \<open>qr_codes\<close>, with the largest identifier handed out so far (what SQLite keeps
  in \<open>sqlite_sequence\<close> for an \<open>AUTOINCREMENT\<close> column).
\<close>

record datastore =
  rows :: "QRCode list"
  seq :: nat

text \<open>The host scheme and host name of \<open>shopify.api.config\<close>.\<close>

record config =
  hostScheme :: string
  hostName :: string

definition DEFAULT_PURCHASE_QUANTITY :: nat where
  "DEFAULT_PURCHASE_QUANTITY = 1"

text \<open>
  Every method sends one statement through \<open>__query\<close>, whose promise is rejected when
  the driver reports an error. The argument \<open>err\<close> of the functions below is that report:
  \<open>None\<close> when the statement runs, \<open>Some e\<close> when the driver fails with \<open>e\<close>, in which
  case the table is left as it was and the method throws.
\<close>

definition generateQrcodeImageUrl :: "config \<Rightarrow> QRCode \<Rightarrow> string" where
  "generateQrcodeImageUrl cfg qrcode =
     hostScheme cfg @ ''://'' @ hostName cfg @ ''/qrcodes/'' @ digits_of (id' qrcode) @ ''/image''"

definition generateQrcodeDestinationUrl :: "config \<Rightarrow> QRCode \<Rightarrow> string" where
  "generateQrcodeDestinationUrl cfg qrcode =
     hostScheme cfg @ ''://'' @ hostName cfg @ ''/qrcodes/'' @ digits_of (id' qrcode) @ ''/scan''"

definition addImageUrl :: "config \<Rightarrow> QRCode \<Rightarrow> QRCode" where
  "addImageUrl cfg qrcode = qrcode\<lparr>imageUrl := Some (generateQrcodeImageUrl cfg qrcode)\<rparr>"

text \<open>
  \<open>INSERT ... VALUES (?, ?, ?, ?, ?, ?, ?, ?, 0) RETURNING id\<close>: the new identifier is one
  more than the largest identifier the table holds or has handed out; \<open>now\<close> is the
  default of \<open>createdAt\<close>.
\<close>

definition create :: "string option \<Rightarrow> string \<Rightarrow> datastore \<Rightarrow> QRCode \<Rightarrow> (thrown + nat) \<times> datastore" where
  "create err now db qrcode =
     (case err of
        Some e \<Rightarrow> (Inl (Query_rejected e), db)
      | None \<Rightarrow>
          (let i = Suc (fold max (map id' (rows db)) (seq db));
               row = \<lparr>id' = i, shopDomain = shopDomain qrcode, title = title qrcode,
                      productId = productId qrcode, variantId = variantId qrcode,
                      handle = handle qrcode, discountId = discountId qrcode,
                      discountCode = discountCode qrcode, destination = destination qrcode,
                      scans = 0, createdAt = now, imageUrl = None\<rparr>
           in (Inr i, db\<lparr>rows := rows db @ [row], seq := i\<rparr>)))"

text \<open>\<open>UPDATE ... SET title = ?, ... WHERE id = ?\<close>, then \<open>return true\<close>.\<close>

definition update :: "string option \<Rightarrow> datastore \<Rightarrow> nat \<Rightarrow> QRCode \<Rightarrow> (thrown + bool) \<times> datastore" where
  "update err db i qrcode =
     (case err of
        Some e \<Rightarrow> (Inl (Query_rejected e), db)
      | None \<Rightarrow>
          (Inr True,
           db\<lparr>rows :=
                map (\<lambda>r. if id' r = i
                          then r\<lparr>title := title qrcode, productId := productId qrcode,
                                 variantId := variantId qrcode, handle := handle qrcode,
                                 discountId := discountId qrcode,
                                 discountCode := discountCode qrcode,
                                 destination := destination qrcode\<rparr>
                          else r)
                  (rows db)\<rparr>))"

text \<open>\<open>SELECT * ... WHERE shopDomain = ?\<close>, every row with its image URL.\<close>

definition list' :: "string option \<Rightarrow> config \<Rightarrow> datastore \<Rightarrow> string \<Rightarrow> thrown + QRCode list" where
  "list' err cfg db shop =
     (case err of
        Some e \<Rightarrow> Inl (Query_rejected e)
      | None \<Rightarrow> Inr (map (addImageUrl cfg) (filter (\<lambda>r. shopDomain r = shop) (rows db))))"

text \<open>\<open>SELECT * ... WHERE id = ?\<close>; \<open>undefined\<close> unless exactly one row comes back.\<close>

definition read :: "string option \<Rightarrow> config \<Rightarrow> datastore \<Rightarrow> nat \<Rightarrow> thrown + QRCode option" where
  "read err cfg db i =
     (case err of
        Some e \<Rightarrow> Inl (Query_rejected e)
      | None \<Rightarrow>
          (case filter (\<lambda>r. id' r = i) (rows db) of
             [r] \<Rightarrow> Inr (Some (addImageUrl cfg r))
           | _ \<Rightarrow> Inr None))"

text \<open>\<open>DELETE ... WHERE id = ?\<close>, then \<open>return true\<close>.\<close>

definition delete' :: "string option \<Rightarrow> datastore \<Rightarrow> nat \<Rightarrow> (thrown + bool) \<times> datastore" where
  "delete' err db i =
     (case err of
        Some e \<Rightarrow> (Inl (Query_rejected e), db)
      | None \<Rightarrow> (Inr True, db\<lparr>rows := filter (\<lambda>r. id' r \<noteq> i) (rows db)\<rparr>))"

text \<open>\<open>UPDATE ... SET scans = scans + 1 WHERE id = ?\<close>, with the \<open>id\<close> of the object.\<close>

definition increaseScanCount :: "string option \<Rightarrow> datastore \<Rightarrow> QRCode \<Rightarrow> thrown + datastore" where
  "increaseScanCount err db qrcode =
     (case err of
        Some e \<Rightarrow> Inl (Query_rejected e)
      | None \<Rightarrow>
          Inr (db\<lparr>rows :=
                    map (\<lambda>r. if id' r = id' qrcode then r\<lparr>scans := scans r + 1\<rparr> else r)
                      (rows db)\<rparr>))"


section \<open>The redirect URLs\<close>

text \<open>
  The two helpers take an object of type \<open>any\<close>: the discount code may be missing, and
  \<open>quantity\<close> has the default 1. A discount code counts when it is truthy, that is,
  present and not the empty string.
\<close>

definition truthy :: "string option \<Rightarrow> bool" where
  "truthy v = (case v of None \<Rightarrow> False | Some s \<Rightarrow> s \<noteq> [])"

definition productViewURL :: "string \<Rightarrow> string \<Rightarrow> string option \<Rightarrow> thrown + string" where
  "productViewURL host_arg productHandle discountCode_arg =
     (case new_URL host_arg of
        Inl e \<Rightarrow> Inl e
      | Inr url \<Rightarrow>
          (let productPath = ''/products/'' @ productHandle in
           if truthy discountCode_arg then
             Inr (toString
                    (searchParams_append
                       (set_pathname url (''/discount/'' @ the discountCode_arg))
                       ''redirect'' productPath))
           else Inr (toString (set_pathname url productPath))))"

text \<open>
  \<open>variantId.replace(/gid:\/\/shopify\/ProductVariant\/([0-9]+)/, "$1")\<close>: the leftmost
  place where the prefix is followed by at least one digit is replaced by the longest run
  of digits there; a string without such a place is returned as it is.
\<close>

definition gid_prefix :: string where
  "gid_prefix = ''gid://shopify/ProductVariant/''"

definition match_gid :: "string \<Rightarrow> (string \<times> string) option" where
  "match_gid s =
     (if take (length gid_prefix) s = gid_prefix \<and>
         takeWhile is_digit (drop (length gid_prefix) s) \<noteq> []
      then Some (takeWhile is_digit (drop (length gid_prefix) s),
                 dropWhile is_digit (drop (length gid_prefix) s))
      else None)"

fun replace_gid :: "string \<Rightarrow> string" where
  "replace_gid [] = []"
| "replace_gid (c # cs) =
     (case match_gid (c # cs) of
        Some (ds, rest) \<Rightarrow> ds @ rest
      | None \<Rightarrow> c # replace_gid cs)"

definition productCheckoutURL ::
    "string \<Rightarrow> string \<Rightarrow> nat option \<Rightarrow> string option \<Rightarrow> thrown + string" where
  "productCheckoutURL host_arg variantId_arg quantity_arg discountCode_arg =
     (case new_URL host_arg of
        Inl e \<Rightarrow> Inl e
      | Inr url \<Rightarrow>
          (let quantity = (case quantity_arg of None \<Rightarrow> 1 | Some n \<Rightarrow> n);
               i = replace_gid variantId_arg;
               url1 = set_pathname url (''/cart/'' @ i @ '':'' @ digits_of quantity)
           in if truthy discountCode_arg
              then Inr (toString (searchParams_append url1 ''discount'' (the discountCode_arg)))
              else Inr (toString url1)))"

definition goToProductView :: "URL \<Rightarrow> QRCode \<Rightarrow> thrown + string" where
  "goToProductView url qrcode =
     productViewURL (toString url) (handle qrcode) (Some (discountCode qrcode))"

definition goToProductCheckout :: "URL \<Rightarrow> QRCode \<Rightarrow> thrown + string" where
  "goToProductCheckout url qrcode =
     productCheckoutURL (toString url) (variantId qrcode) (Some DEFAULT_PURCHASE_QUANTITY)
       (Some (discountCode qrcode))"

text \<open>
  \<open>handleCodeScan\<close>: the scan is logged first; then the shop domain is parsed, and the
  destination decides the URL. The default branch throws the string
  \<open>Unrecognized destination "..."\<close>.
\<close>

definition handleCodeScan ::
    "string option \<Rightarrow> datastore \<Rightarrow> QRCode \<Rightarrow> (thrown + string) \<times> datastore" where
  "handleCodeScan err db qrcode =
     (case increaseScanCount err db qrcode of
        Inl e \<Rightarrow> (Inl e, db)
      | Inr db1 \<Rightarrow>
          (case new_URL (shopDomain qrcode) of
             Inl e \<Rightarrow> (Inl e, db1)
           | Inr url \<Rightarrow>
               if destination qrcode = ''product'' then (goToProductView url qrcode, db1)
               else if destination qrcode = ''checkout'' then (goToProductCheckout url qrcode, db1)
               else (Inl (Thrown_string
                            (''Unrecognized destination '' @ [CHR 0x22] @ destination qrcode @
                             [CHR 0x22])),
                     db1)))"


section \<open>Notions used in the statements\<close>

text \<open>
  The origin of a URL is its scheme and host, the \<open><host>\<close> of the redirect formats.
  A shop origin \<open>sch://h\<close> parses to the URL with the root path and no query.
\<close>

definition origin :: "URL \<Rightarrow> string" where
  "origin url = scheme url @ ''://'' @ host url"

definition origin_url :: "string \<Rightarrow> string \<Rightarrow> URL" where
  "origin_url sch h = \<lparr>scheme = sch, host = h, path = [[]], searchParams = []\<rparr>"

text \<open>
  A string that the path parser keeps as one segment, character for character: it has no
  slash or backslash and no character of the path percent-encode set, and it is not a
  dot segment.
\<close>

definition segment_chars :: "string \<Rightarrow> bool" where
  "segment_chars s = list_all (\<lambda>c. \<not> in_path_percent_encode_set c \<and> \<not> is_slash c) s"

definition plain_segment :: "string \<Rightarrow> bool" where
  "plain_segment s = (segment_chars s \<and> \<not> is_single_dot s \<and> \<not> is_double_dot s)"

text \<open>
  The pathname a URL has once its \<open>pathname\<close> is set to \<open>v\<close>: the segments the path
  parser makes of \<open>v\<close>, each after a slash.
\<close>

definition pathname_of :: "string \<Rightarrow> string" where
  "pathname_of v =
     concat (map (\<lambda>s. CHR ''/'' # s)
       (path_state [] (path_segments (filter (\<lambda>c. \<not> tab_or_newline c) v))))"

text \<open>
  A string that the path parser keeps as one segment, percent-encoded: it has no slash,
  backslash, tab or newline, and it is not a dot segment.
\<close>

definition single_segment :: "string \<Rightarrow> bool" where
  "single_segment s =
     (list_all (\<lambda>c. \<not> is_slash c \<and> \<not> tab_or_newline c) s \<and>
      \<not> is_single_dot (path_encode s) \<and> \<not> is_double_dot (path_encode s))"

text \<open>
  The characters a serialised URL of the fragment is made of outside its delimiters:
  neither stripped nor removed by the parser, and neither \<open>?\<close> nor \<open>#\<close>.
\<close>

definition url_text_char :: "char \<Rightarrow> bool" where
  "url_text_char c =
     (\<not> c0_control_or_space c \<and> \<not> tab_or_newline c \<and> c \<noteq> CHR ''?'' \<and> c \<noteq> CHR ''#'')"

definition text_path :: "string list \<Rightarrow> bool" where
  "text_path p = (\<forall>b\<in>set p. \<forall>d\<in>set b. url_text_char d)"

text \<open>
  A well-formed variant identifier is \<open>gid://shopify/ProductVariant/\<close> followed by one
  or more digits and nothing else. A string contains the pattern when the regular
  expression matches somewhere in it.
\<close>

definition well_formed_variantId :: "string \<Rightarrow> bool" where
  "well_formed_variantId v =
     (take (length gid_prefix) v = gid_prefix \<and> drop (length gid_prefix) v \<noteq> [] \<and>
      list_all is_digit (drop (length gid_prefix) v))"

fun contains_gid :: "string \<Rightarrow> bool" where
  "contains_gid [] = False"
| "contains_gid (c # cs) = (match_gid (c # cs) \<noteq> None \<or> contains_gid cs)"

text \<open>The scan counter the table holds for an identifier, if it holds a row for it.\<close>

definition scans_of :: "datastore \<Rightarrow> nat \<Rightarrow> nat option" where
  "scans_of db i = map_of (map (\<lambda>r. (id' r, scans r)) (rows db)) i"

definition ids_of :: "datastore \<Rightarrow> nat set" where
  "ids_of db = id' ` set (rows db)"

text \<open>
  The operations that write to the table, each with the report of the driver for its
  statement; \<open>read\<close> and \<open>list\<close> only select.
\<close>

datatype operation =
    Create "string option" string QRCode
  | Update "string option" nat QRCode
  | Delete "string option" nat
  | HandleCodeScan "string option" QRCode

fun perform :: "operation \<Rightarrow> datastore \<Rightarrow> datastore" where
  "perform (Create err now qrcode) db = snd (create err now db qrcode)"
| "perform (Update err i qrcode) db = snd (update err db i qrcode)"
| "perform (Delete err i) db = snd (delete' err db i)"
| "perform (HandleCodeScan err qrcode) db = snd (handleCodeScan err db qrcode)"

text \<open>The record and the table of the examples.\<close>

definition example_qrcode :: QRCode where
  "example_qrcode =
     \<lparr>id' = 1, shopDomain = ''https://shop.myshopify.com'', title = ''Mug'',
      productId = ''gid://shopify/Product/7'',
      variantId = ''gid://shopify/ProductVariant/12345'', handle = ''blue-mug'',
      discountId = [], discountCode = [], destination = ''checkout'', scans = 0,
      createdAt = ''2023-03-01 10:00:00'', imageUrl = None\<rparr>"

definition example_db :: datastore where
  "example_db = \<lparr>rows = [example_qrcode], seq = 1\<rparr>"

definition example_config :: config where
  "example_config = \<lparr>hostScheme = ''https'', hostName = ''qr.example.com''\<rparr>"


section \<open>Auxiliary facts\<close>

subsection \<open>Lists and characters\<close>

lemma dropWhile_none: "\<forall>c\<in>set s. \<not> P c \<Longrightarrow> dropWhile P s = s"
  by (cases s) auto

lemma split_on_none: "\<forall>c\<in>set s. \<not> P c \<Longrightarrow> split_on P s = [s]"
  by (induction s) auto

lemma split_on_append:
  "\<forall>c\<in>set s. \<not> P c \<Longrightarrow> P d \<Longrightarrow> split_on P (s @ d # t) = s # split_on P t"
  by (induction s) auto

lemma host_char_facts:
  "host_char c \<Longrightarrow> \<not> c0_control_or_space c \<and> \<not> tab_or_newline c \<and> \<not> is_delim c"
  by (auto simp: host_char_def is_lower_def is_digit_def c0_control_or_space_def
      tab_or_newline_def is_delim_def is_slash_def)

lemma scheme_text_clean:
  "c \<in> set ''https://'' \<Longrightarrow> \<not> c0_control_or_space c \<and> \<not> tab_or_newline c"
  by (auto simp: c0_control_or_space_def tab_or_newline_def)

lemma is_delim_slash: "is_delim (CHR ''/'')"
  by (simp add: is_delim_def is_slash_def)

lemma slash_facts: "is_slash (CHR ''/'')" "\<not> tab_or_newline (CHR ''/'')"
  by (simp_all add: is_slash_def tab_or_newline_def)

lemma tab_in_encode_set:
  assumes "tab_or_newline c"
  shows "in_path_percent_encode_set c"
proof -
  from assms consider "c = CHR 0x09" | "c = CHR 0x0A" | "c = CHR 0x0D"
    by (auto simp: tab_or_newline_def)
  then show ?thesis
    by cases (simp_all add: in_path_percent_encode_set_def)
qed


lemma to_lower_1: "to_lower (CHR ''1'') = CHR ''1''"
  by (simp add: to_lower_def is_upper_def)

lemma digits_of_1: "digits_of 1 = ''1''" "digits_of (Suc 0) = ''1''"
  by (simp_all add: digits_of.simps)

subsection \<open>Parsing\<close>

lemma url_trim_id:
  assumes "\<forall>c\<in>set s. \<not> c0_control_or_space c \<and> \<not> tab_or_newline c"
  shows "url_trim s = s"
proof -
  have "dropWhile c0_control_or_space s = s"
    using assms by (simp add: dropWhile_none)
  moreover have "dropWhile c0_control_or_space (rev s) = rev s"
    using assms by (simp add: dropWhile_none)
  moreover have "filter (\<lambda>c. \<not> tab_or_newline c) s = s"
    using assms by (simp add: filter_id_conv)
  ultimately show ?thesis by (simp add: url_trim_def)
qed

lemma parse_scheme_http:
  "parse_scheme (CHR ''h'' # CHR ''t'' # CHR ''t'' # CHR ''p'' # CHR '':'' # r) =
     Some (''http'', r)"
  "parse_scheme (CHR ''h'' # CHR ''t'' # CHR ''t'' # CHR ''p'' # CHR ''s'' # CHR '':'' # r) =
     Some (''https'', r)"
  by (simp_all add: parse_scheme_def is_alpha_def is_lower_def is_upper_def scheme_char_def
      is_alnum_def is_digit_def to_lower_def)

lemma no_colon_no_scheme:
  assumes "CHR '':'' \<notin> set s"
  shows "parse_scheme (url_trim s) = None"
proof -
  have "set (dropWhile c0_control_or_space (rev (dropWhile c0_control_or_space s)))
          \<subseteq> set (rev (dropWhile c0_control_or_space s))"
    by (auto dest: set_dropWhileD)
  also have "\<dots> \<subseteq> set s"
    by (auto dest: set_dropWhileD)
  finally have "set (url_trim s) \<subseteq> set s"
    by (auto simp: url_trim_def)
  with assms have n: "CHR '':'' \<notin> set (url_trim s)"
    by blast
  show ?thesis
  proof (cases "url_trim s")
    case Nil
    then show ?thesis by (simp add: parse_scheme_def)
  next
    case (Cons c cs)
    with n have "CHR '':'' \<notin> set (dropWhile scheme_char cs)"
      by (auto dest: set_dropWhileD)
    then show ?thesis
      using Cons by (auto simp: parse_scheme_def split: list.splits)
  qed
qed

lemma path_root: "path_state [] (path_segments []) = [[]]"
  by (simp add: path_segments_def path_encode_def is_double_dot_def is_single_dot_def)

lemma takeWhile_host:
  assumes "\<forall>c\<in>set h. host_char c" and "t = [] \<or> (\<exists>r. t = CHR ''/'' # r)"
  shows "takeWhile (\<lambda>c. \<not> is_delim c) (h @ t) = h"
    and "dropWhile (\<lambda>c. \<not> is_delim c) (h @ t) = t"
  using assms by (auto simp: host_char_facts is_delim_slash)

text \<open>A plain shop origin parses to its origin URL.\<close>

lemma new_URL_origin:
  assumes sch: "sch = ''http'' \<or> sch = ''https''" and h: "modelled_host h"
  shows "new_URL (sch @ ''://'' @ h) = Inr (origin_url sch h)"
proof -
  have hc: "\<forall>c\<in>set h. host_char c"
    using h by (simp add: modelled_host_def list_all_iff)
  have trim: "url_trim (sch @ ''://'' @ h) = sch @ ''://'' @ h"
    using sch hc by (intro url_trim_id) (auto simp: scheme_text_clean dest: host_char_facts)
  have tw: "takeWhile (\<lambda>c. \<not> is_delim c) h = h" "dropWhile (\<lambda>c. \<not> is_delim c) h = []"
    using takeWhile_host [OF hc, of "[]"] by simp_all
  show ?thesis
    using sch h unfolding new_URL_def trim
    by (auto simp: parse_scheme_http tw path_root origin_url_def)
qed

lemma origin_origin_url: "origin (origin_url sch h) = sch @ ''://'' @ h"
  by (simp add: origin_def origin_url_def)

subsection \<open>Serialised URLs parse again\<close>

lemma hex_digit_text:
  assumes "k < 16"
  shows "url_text_char (''0123456789ABCDEF'' ! k)"
proof -
  have "\<forall>c\<in>set ''0123456789ABCDEF''. url_text_char c"
    by (simp add: url_text_char_def c0_control_or_space_def tab_or_newline_def)
  moreover have "''0123456789ABCDEF'' ! k \<in> set ''0123456789ABCDEF''"
    using assms by (intro nth_mem) simp
  ultimately show ?thesis by blast
qed

lemma of_char_div_16: "(of_char c :: nat) div 16 < 16"
proof -
  have "(of_char c :: nat) < 256"
    by (rule nat_of_char_less_256)
  then show ?thesis by arith
qed

lemma percent_encode_text: "\<forall>d\<in>set (percent_encode c). url_text_char d"
proof -
  have "url_text_char (CHR ''%'')"
    by (simp add: url_text_char_def c0_control_or_space_def tab_or_newline_def)
  then show ?thesis
    by (simp add: percent_encode_def hex_digit_text of_char_div_16)
qed

lemma not_text_in_encode_set:
  assumes "\<not> url_text_char c"
  shows "in_path_percent_encode_set c"
proof -
  from assms consider "(of_char c :: nat) < 32" | "(of_char c :: nat) = 32"
    | "tab_or_newline c" | "c = CHR ''?''" | "c = CHR ''#''"
    by (auto simp: url_text_char_def c0_control_or_space_def le_less)
  then show ?thesis
  proof cases
    case 1
    then show ?thesis by (simp add: in_path_percent_encode_set_def)
  next
    case 2
    have "c = char_of (of_char c :: nat)" by simp
    also have "\<dots> = CHR 0x20" unfolding 2 by code_simp
    finally show ?thesis by (simp add: in_path_percent_encode_set_def)
  next
    case 3
    then show ?thesis by (rule tab_in_encode_set)
  next
    case 4
    then show ?thesis by (simp add: in_path_percent_encode_set_def)
  next
    case 5
    then show ?thesis by (simp add: in_path_percent_encode_set_def)
  qed
qed

lemma path_encode_Cons:
  "path_encode (c # s) =
     (if in_path_percent_encode_set c then percent_encode c else [c]) @ path_encode s"
  by (simp add: path_encode_def)

lemma path_encode_text: "\<forall>d\<in>set (path_encode s). url_text_char d"
proof (induction s)
  case Nil
  show ?case by (simp add: path_encode_def)
next
  case (Cons c s)
  show ?case
  proof (cases "in_path_percent_encode_set c")
    case True
    with Cons percent_encode_text [of c] show ?thesis
      by (simp add: path_encode_Cons ball_Un)
  next
    case False
    then have "url_text_char c"
      using not_text_in_encode_set by blast
    with Cons False show ?thesis
      by (simp add: path_encode_Cons ball_Un)
  qed
qed

lemma text_path_simps:
  "text_path []"
  "text_path (p @ r) = (text_path p \<and> text_path r)"
  "text_path [[]]"
  "text_path [path_encode s]"
  "text_path p \<Longrightarrow> text_path (butlast p)"
  using path_encode_text by (auto simp: text_path_def dest: in_set_butlastD)

lemma path_state_text: "text_path p \<Longrightarrow> text_path (path_state p segs)"
  by (induction segs arbitrary: p) (simp_all add: Let_def text_path_simps)

lemma new_URL_Inr:
  assumes "new_URL s = Inr u"
  shows "(scheme u = ''http'' \<or> scheme u = ''https'') \<and> modelled_host (host u) \<and>
         searchParams u = [] \<and> text_path (path u)"
proof -
  have "text_path (path_state [] segs)" for segs
    by (rule path_state_text) (rule text_path_simps)
  with assms show ?thesis
    by (auto simp: new_URL_def Let_def split: option.splits if_splits)
qed

text \<open>
  \<open>handleCodeScan\<close> parses the shop domain, serialises the URL and has the helper parse
  that text again: the second parse succeeds, with the same scheme and host.
\<close>

lemma new_URL_roundtrip:
  assumes "new_URL s = Inr u"
  shows "\<exists>u'. new_URL (toString u) = Inr u' \<and> origin u' = origin u \<and> searchParams u' = []"
proof -
  from new_URL_Inr [OF assms]
  have sch: "scheme u = ''http'' \<or> scheme u = ''https''" and mh: "modelled_host (host u)"
    and sp: "searchParams u = []" and tp: "text_path (path u)"
    by simp_all
  define t where "t = concat (map ((#) CHR ''/'') (path u))"
  have ts: "toString u = scheme u @ ''://'' @ host u @ t"
    by (simp add: toString_def sp t_def)
  have "url_text_char (CHR ''/'')"
    by (simp add: url_text_char_def c0_control_or_space_def tab_or_newline_def)
  with tp have tt: "\<forall>d\<in>set t. url_text_char d"
    by (auto simp: t_def text_path_def)
  have th: "t = [] \<or> (\<exists>r. t = CHR ''/'' # r)"
    by (cases "path u") (simp_all add: t_def)
  have hc: "\<forall>c\<in>set (host u). host_char c"
    using mh by (simp add: modelled_host_def list_all_iff)
  have "set (scheme u @ ''://'') \<subseteq> set ''https://''"
    using sch by auto
  then have "\<forall>c\<in>set (scheme u @ ''://''). \<not> c0_control_or_space c \<and> \<not> tab_or_newline c"
    using scheme_text_clean by blast
  moreover have "\<forall>c\<in>set (host u). \<not> c0_control_or_space c \<and> \<not> tab_or_newline c"
    using hc host_char_facts by blast
  moreover have "\<forall>c\<in>set t. \<not> c0_control_or_space c \<and> \<not> tab_or_newline c"
    using tt by (simp add: url_text_char_def)
  ultimately have "\<forall>c\<in>set (scheme u @ ''://'' @ host u @ t).
      \<not> c0_control_or_space c \<and> \<not> tab_or_newline c"
    by (simp add: ball_Un)
  then have trim: "url_trim (scheme u @ ''://'' @ host u @ t) = scheme u @ ''://'' @ host u @ t"
    by (rule url_trim_id)
  have q: "CHR ''?'' \<notin> set t" "CHR ''#'' \<notin> set t"
    using tt by (auto simp: url_text_char_def)
  have "new_URL (toString u) =
          Inr \<lparr>scheme = scheme u, host = host u, path = path_state [] (path_segments t),
               searchParams = []\<rparr>"
    unfolding new_URL_def ts trim
    using sch mh q by (auto simp: parse_scheme_http takeWhile_host [OF hc th])
  then show ?thesis by (simp add: origin_def)
qed

subsection \<open>Paths and variant identifiers\<close>

lemma path_encode_id: "\<forall>c\<in>set s. \<not> in_path_percent_encode_set c \<Longrightarrow> path_encode s = s"
  by (induction s) (auto simp: path_encode_def)

lemma segment_chars_no_tab:
  "segment_chars s \<Longrightarrow> \<forall>c\<in>set s. \<not> tab_or_newline c"
  by (auto simp: segment_chars_def list_all_iff dest: tab_in_encode_set)

lemma segment_chars_no_slash:
  "segment_chars s \<Longrightarrow> \<forall>c\<in>set s. \<not> is_slash c"
  by (auto simp: segment_chars_def list_all_iff)

lemma segment_chars_encode: "segment_chars s \<Longrightarrow> path_encode s = s"
  by (rule path_encode_id) (auto simp: segment_chars_def list_all_iff)

lemma path_state_two:
  assumes "plain_segment a" "plain_segment s"
  shows "path_state [] [a, s] = [a, s]"
  using assms by (simp add: plain_segment_def segment_chars_encode)

lemma set_pathname_two:
  assumes a: "plain_segment a" and s: "plain_segment s"
  shows "set_pathname url (CHR ''/'' # a @ CHR ''/'' # s) = url\<lparr>path := [a, s]\<rparr>"
proof -
  have ca: "segment_chars a" and cs: "segment_chars s"
    using a s by (simp_all add: plain_segment_def)
  have f: "filter (\<lambda>c. \<not> tab_or_newline c) (CHR ''/'' # a @ CHR ''/'' # s) =
             CHR ''/'' # a @ CHR ''/'' # s"
    using segment_chars_no_tab [OF ca] segment_chars_no_tab [OF cs]
    by (simp add: filter_id_conv slash_facts)
  have "split_on is_slash (a @ CHR ''/'' # s) = a # split_on is_slash s"
    using segment_chars_no_slash [OF ca] by (simp add: split_on_append slash_facts)
  also have "split_on is_slash s = [s]"
    using segment_chars_no_slash [OF cs] by (simp add: split_on_none)
  finally have g: "path_segments (CHR ''/'' # a @ CHR ''/'' # s) = [a, s]"
    by (simp add: path_segments_def slash_facts)
  show ?thesis
    by (simp only: set_pathname_def f g path_state_two [OF a s])
qed

lemma plain_products: "plain_segment ''products''"
  and plain_discount: "plain_segment ''discount''"
  and plain_cart: "plain_segment ''cart''"
  by (simp_all add: plain_segment_def segment_chars_def in_path_percent_encode_set_def
      is_slash_def is_single_dot_def is_double_dot_def to_lower_def is_upper_def)

lemma single_dot_last:
  assumes "is_single_dot b"
  shows "last b = CHR ''.'' \<or> to_lower (last b) = CHR ''e''"
proof -
  from assms consider "b = ''.''" | "map to_lower b = ''%2e''"
    by (auto simp: is_single_dot_def)
  then show ?thesis
  proof cases
    case 1
    then show ?thesis by simp
  next
    case 2
    then have "b \<noteq> []" by auto
    then have "last (map to_lower b) = to_lower (last b)"
      by (simp add: last_map)
    with 2 show ?thesis by simp
  qed
qed

lemma double_dot_last:
  assumes "is_double_dot b"
  shows "last b = CHR ''.'' \<or> to_lower (last b) \<in> {CHR ''.'', CHR ''e''}"
proof -
  from assms consider "b = ''..''" | "map to_lower b \<in> {''.%2e'', ''%2e.'', ''%2e%2e''}"
    by (auto simp: is_double_dot_def)
  then show ?thesis
  proof cases
    case 1
    then show ?thesis by simp
  next
    case 2
    then have "b \<noteq> []" by auto
    then have "last (map to_lower b) = to_lower (last b)"
      by (simp add: last_map)
    with 2 show ?thesis by auto
  qed
qed

text \<open>The cart item \<open><id>:1\<close> is one plain segment whenever the identifier is.\<close>

lemma plain_cart_item:
  assumes "segment_chars v"
  shows "plain_segment (v @ '':1'')"
proof -
  have "segment_chars '':1''"
    by (simp add: segment_chars_def in_path_percent_encode_set_def is_slash_def)
  then have "segment_chars (v @ '':1'')"
    using assms by (simp add: segment_chars_def)
  moreover have "\<not> is_single_dot (v @ '':1'')"
    using single_dot_last [of "v @ '':1''"] by (auto simp: to_lower_1)
  moreover have "\<not> is_double_dot (v @ '':1'')"
    using double_dot_last [of "v @ '':1''"] by (auto simp: to_lower_1)
  ultimately show ?thesis by (simp add: plain_segment_def)
qed




lemma replace_gid_no_match: "\<not> contains_gid v \<Longrightarrow> replace_gid v = v"
  by (induction v) (auto split: option.splits)

subsection \<open>The three redirects\<close>

lemma truthy_Some: "truthy (Some s) = (s \<noteq> [])"
  by (simp add: truthy_def)

lemma toString_path2:
  assumes "searchParams url = []"
  shows "toString (url\<lparr>path := [a, s]\<rparr>) = origin url @ ''/'' @ a @ ''/'' @ s"
  using assms by (simp add: toString_def origin_def)

lemma toString_path2_param:
  assumes "searchParams url = []"
  shows "toString (searchParams_append (url\<lparr>path := [a, s]\<rparr>) n v) =
           origin url @ ''/'' @ a @ ''/'' @ s @ ''?'' @ urlencoded n @ ''='' @ urlencoded v"
  using assms by (simp add: toString_def origin_def searchParams_append_def)

lemma urlencoded_redirect: "urlencoded ''redirect'' = ''redirect''"
  and urlencoded_discount: "urlencoded ''discount'' = ''discount''"
  by (simp_all add: urlencoded_def urlencoded_plain_def is_alnum_def is_alpha_def is_lower_def)


lemma productCheckoutURL_item:
  assumes u: "new_URL host_arg = Inr url" "searchParams url = []"
    and v: "segment_chars (replace_gid v)"
  shows "productCheckoutURL host_arg v (Some DEFAULT_PURCHASE_QUANTITY) d =
           Inr (origin url @ ''/cart/'' @ replace_gid v @ '':1'' @
                (if truthy d then ''?discount='' @ urlencoded (the d) else []))"
proof -
  have "set_pathname url (''/cart/'' @ replace_gid v @ '':1'') =
          url\<lparr>path := [''cart'', replace_gid v @ '':1'']\<rparr>"
    using set_pathname_two [OF plain_cart plain_cart_item [OF v], of url] by simp
  then show ?thesis
    unfolding productCheckoutURL_def u(1)
    by (simp add: toString_path2_param [OF u(2)] toString_path2 [OF u(2)]
        DEFAULT_PURCHASE_QUANTITY_def digits_of_1 urlencoded_discount)
qed

lemma productCheckoutURL_returns:
  assumes "new_URL host_arg = Inr url"
  shows "\<exists>r. productCheckoutURL host_arg v n d = Inr r"
  using assms by (simp add: productCheckoutURL_def Let_def)


subsection \<open>Scans\<close>

lemma increaseScanCount_None:
  "increaseScanCount None db q =
     Inr (db\<lparr>rows := map (\<lambda>r. if id' r = id' q then r\<lparr>scans := scans r + 1\<rparr> else r)
                        (rows db)\<rparr>)"
  by (simp add: increaseScanCount_def)

lemma handleCodeScan_product:
  assumes "new_URL (shopDomain q) = Inr u" "destination q = ''product''"
  shows "fst (handleCodeScan None db q) =
           productViewURL (toString u) (handle q) (Some (discountCode q))"
  using assms by (simp add: handleCodeScan_def increaseScanCount_None goToProductView_def)

lemma handleCodeScan_checkout:
  assumes "new_URL (shopDomain q) = Inr u" "destination q = ''checkout''"
  shows "fst (handleCodeScan None db q) =
           productCheckoutURL (toString u) (variantId q) (Some DEFAULT_PURCHASE_QUANTITY)
             (Some (discountCode q))"
  using assms by (simp add: handleCodeScan_def increaseScanCount_None goToProductCheckout_def)

lemma snd_handleCodeScan:
  "snd (handleCodeScan None db q) =
     db\<lparr>rows := map (\<lambda>r. if id' r = id' q then r\<lparr>scans := scans r + 1\<rparr> else r) (rows db)\<rparr>"
  "snd (handleCodeScan (Some e) db q) = db"
  by (simp_all add: handleCodeScan_def increaseScanCount_def split: sum.splits)

subsection \<open>The table\<close>

lemma fold_max_ge_init: "a \<le> fold max xs (a::nat)"
  by (induction xs arbitrary: a) (auto intro: order_trans [OF max.cobounded2])

lemma fold_max_ge_elem: "x \<in> set xs \<Longrightarrow> x \<le> fold max xs (a::nat)"
proof (induction xs arbitrary: a)
  case Nil
  then show ?case by simp
next
  case (Cons y ys)
  show ?case
  proof (cases "x = y")
    case True
    have "y \<le> max y a" by simp
    also have "\<dots> \<le> fold max ys (max y a)" by (rule fold_max_ge_init)
    finally show ?thesis using True by simp
  next
    case False
    with Cons show ?thesis by simp
  qed
qed

lemma new_id_fresh: "Suc (fold max (map id' (rows db)) (seq db)) \<notin> ids_of db"
proof
  assume "Suc (fold max (map id' (rows db)) (seq db)) \<in> ids_of db"
  then have "Suc (fold max (map id' (rows db)) (seq db)) \<in> set (map id' (rows db))"
    by (simp add: ids_of_def)
  from fold_max_ge_elem [OF this, of "seq db"] show False by simp
qed

lemma filter_fresh: "i \<notin> ids_of db \<Longrightarrow> filter (\<lambda>r. id' r = i) (rows db) = []"
  by (auto simp: ids_of_def filter_empty_conv)

lemma scans_of_map_cong:
  assumes "\<And>r. id' (f r) = id' r" "\<And>r. scans (f r) = scans r"
  shows "scans_of (db\<lparr>rows := map f (rows db)\<rparr>) i = scans_of db i"
  using assms by (simp add: scans_of_def comp_def)

lemma map_of_increase:
  "map_of (map (\<lambda>r. (id' r, scans r))
             (map (\<lambda>r. if id' r = j then r\<lparr>scans := scans r + 1\<rparr> else r) rs)) i =
     (if i = j then map_option Suc (map_of (map (\<lambda>r. (id' r, scans r)) rs) i)
      else map_of (map (\<lambda>r. (id' r, scans r)) rs) i)"
  by (induction rs) auto

lemma scans_of_increase:
  "scans_of (db\<lparr>rows := map (\<lambda>r. if id' r = j then r\<lparr>scans := scans r + 1\<rparr> else r)
                          (rows db)\<rparr>) i =
     (if i = j then map_option Suc (scans_of db i) else scans_of db i)"
proof -
  have "rows (db\<lparr>rows := map (\<lambda>r. if id' r = j then r\<lparr>scans := scans r + 1\<rparr> else r)
                           (rows db)\<rparr>) =
          map (\<lambda>r. if id' r = j then r\<lparr>scans := scans r + 1\<rparr> else r) (rows db)"
    by simp
  then show ?thesis
    by (simp only: scans_of_def map_of_increase)
qed

lemma scans_of_update: "scans_of (snd (update err db j q)) i = scans_of db i"
  by (cases err) (simp_all add: update_def scans_of_map_cong)

lemma scans_of_create:
  assumes "scans_of db i = Some n"
  shows "scans_of (snd (create err now db q)) i = Some n"
  using assms by (cases err) (simp_all add: create_def Let_def scans_of_def)

lemma scans_of_delete:
  assumes "scans_of (snd (delete' err db j)) i = Some m"
  shows "scans_of db i = Some m"
proof (cases err)
  case None
  have "map_of (map (\<lambda>r. (id' r, scans r)) (filter (\<lambda>r. id' r \<noteq> j) rs)) i =
        (if i = j then None else map_of (map (\<lambda>r. (id' r, scans r)) rs) i)" for rs
    by (induction rs) auto
  note f = this [of "rows db"]
  from assms None
  have "map_of (map (\<lambda>r. (id' r, scans r)) (filter (\<lambda>r. id' r \<noteq> j) (rows db))) i = Some m"
    by (simp add: delete'_def scans_of_def)
  then show ?thesis
    unfolding f scans_of_def by (simp split: if_splits)
next
  case (Some e)
  with assms show ?thesis by (simp add: delete'_def)
qed

lemma scans_of_scan:
  "scans_of (snd (handleCodeScan err db q)) i =
     (if err = None \<and> i = id' q then map_option Suc (scans_of db i) else scans_of db i)"
  by (cases err) (simp_all add: snd_handleCodeScan scans_of_increase)


subsection \<open>Pathnames in general\<close>

lemma toString_set_pathname:
  assumes "searchParams url = []"
  shows "toString (set_pathname url v) = origin url @ pathname_of v"
  using assms by (simp add: toString_def set_pathname_def origin_def pathname_of_def)

lemma toString_set_pathname_param:
  assumes "searchParams url = []"
  shows "toString (searchParams_append (set_pathname url v) n x) =
           origin url @ pathname_of v @ ''?'' @ urlencoded n @ ''='' @ urlencoded x"
  using assms
  by (simp add: toString_def set_pathname_def origin_def pathname_of_def searchParams_append_def)





lemma pathname_of_single:
  assumes a: "plain_segment a" and s: "single_segment s"
  shows "pathname_of (CHR ''/'' # a @ CHR ''/'' # s) = CHR ''/'' # a @ CHR ''/'' # path_encode s"
proof -
  have ca: "segment_chars a"
    using a by (simp add: plain_segment_def)
  have ns: "\<forall>c\<in>set s. \<not> is_slash c" and nt: "\<forall>c\<in>set s. \<not> tab_or_newline c"
    using s by (simp_all add: single_segment_def list_all_iff)
  have f: "filter (\<lambda>c. \<not> tab_or_newline c) (CHR ''/'' # a @ CHR ''/'' # s) =
             CHR ''/'' # a @ CHR ''/'' # s"
    using segment_chars_no_tab [OF ca] nt
    by (simp add: filter_id_conv slash_facts)
  have "split_on is_slash (a @ CHR ''/'' # s) = a # split_on is_slash s"
    using segment_chars_no_slash [OF ca] by (simp add: split_on_append slash_facts)
  also have "split_on is_slash s = [s]"
    using ns by (simp add: split_on_none)
  finally have g: "path_segments (CHR ''/'' # a @ CHR ''/'' # s) = [a, s]"
    by (simp add: path_segments_def slash_facts)
  have h: "path_state [] [a, s] = [a, path_encode s]"
    using a s by (simp add: plain_segment_def single_segment_def segment_chars_encode)
  show ?thesis
    unfolding pathname_of_def f g h by simp
qed

lemma plain_single_segment:
  assumes "plain_segment s"
  shows "single_segment s" and "path_encode s = s"
proof -
  have c: "segment_chars s"
    using assms by (simp add: plain_segment_def)
  show e: "path_encode s = s"
    using c by (rule segment_chars_encode)
  show "single_segment s"
    using assms segment_chars_no_tab [OF c] segment_chars_no_slash [OF c]
    by (simp add: single_segment_def plain_segment_def e list_all_iff)
qed

lemma productViewURL_general:
  assumes "new_URL host_arg = Inr url" "searchParams url = []"
  shows "productViewURL host_arg p d =
           Inr (origin url @
                (if truthy d
                 then pathname_of (''/discount/'' @ the d) @ ''?redirect='' @
                      urlencoded (''/products/'' @ p)
                 else pathname_of (''/products/'' @ p)))"
  unfolding productViewURL_def assms(1)
  by (simp add: Let_def toString_set_pathname [OF assms(2)]
      toString_set_pathname_param [OF assms(2)] urlencoded_redirect)


lemma scan_product_general:
  assumes "new_URL (shopDomain q) = Inr u" and "destination q = ''product''"
  shows "fst (handleCodeScan None db q) =
           Inr (origin u @
                (if discountCode q \<noteq> []
                 then pathname_of (''/discount/'' @ discountCode q) @ ''?redirect='' @
                      urlencoded (''/products/'' @ handle q)
                 else pathname_of (''/products/'' @ handle q)))"
proof -
  from new_URL_roundtrip [OF assms(1)] obtain u' where
    u': "new_URL (toString u) = Inr u'" "origin u' = origin u" "searchParams u' = []"
    by blast
  from productViewURL_general [OF u'(1,3), of "handle q" "Some (discountCode q)"]
  show ?thesis
    by (simp add: handleCodeScan_product [OF assms] u'(2) truthy_Some)
qed


lemma pathname_products:
  "single_segment s \<Longrightarrow> pathname_of (''/products/'' @ s) = ''/products/'' @ path_encode s"
  "plain_segment s \<Longrightarrow> pathname_of (''/products/'' @ s) = ''/products/'' @ s"
  using pathname_of_single [OF plain_products, of s] plain_single_segment [of s]
  by simp_all

lemma pathname_discount:
  "single_segment s \<Longrightarrow> pathname_of (''/discount/'' @ s) = ''/discount/'' @ path_encode s"
  "plain_segment s \<Longrightarrow> pathname_of (''/discount/'' @ s) = ''/discount/'' @ s"
  using pathname_of_single [OF plain_discount, of s] plain_single_segment [of s]
  by simp_all



section \<open>Destination resolution\<close>

text \<open>
  In the statements below \<open>err = None\<close> says that the statement incrementing the scan
  counter ran, and \<open>new_URL (shopDomain q) = Inr u\<close> that the shop domain of the record
  parses, to the URL \<open>u\<close>; \<open>origin u\<close> is the \<open><host>\<close> of the redirect formats.
\<close>

text \<open>
  C1, counterexample. The example record with the variant identifier \<open>not-a-gid\<close>, which
  is not of the form \<open>gid://shopify/ProductVariant/<digits>\<close>, has destination
  \<open>checkout\<close>; scanning it throws nothing and returns a cart URL.
\<close>

theorem checkout_malformed_variant_counterexample:
  "destination (example_qrcode\<lparr>variantId := ''not-a-gid''\<rparr>) = ''checkout'' \<and>
   \<not> well_formed_variantId (variantId (example_qrcode\<lparr>variantId := ''not-a-gid''\<rparr>)) \<and>
   fst (handleCodeScan None example_db (example_qrcode\<lparr>variantId := ''not-a-gid''\<rparr>)) =
     Inr ''https://shop.myshopify.com/cart/not-a-gid:1''"
  by code_simp

text \<open>
  C1, as amended. For every record with destination \<open>checkout\<close>, whatever its variant
  identifier, destination resolution returns a URL: no identifier is rejected as
  malformed. An identifier in which the pattern
  \<open>gid://shopify/ProductVariant/<digits>\<close> does not occur is used as it is: when it
  consists of characters that a path segment keeps, the result is
  \<open><host>/cart/<variant id>:1\<close>, followed by \<open>?discount=<urlencoded code>\<close> when the
  discount code is not empty.
\<close>

theorem checkout_never_rejects_variant:
  assumes "new_URL (shopDomain q) = Inr u" and "destination q = ''checkout''"
  shows "(\<exists>url. fst (handleCodeScan None db q) = Inr url) \<and>
         (\<not> contains_gid (variantId q) \<longrightarrow> segment_chars (variantId q) \<longrightarrow>
            fst (handleCodeScan None db q) =
              Inr (origin u @ ''/cart/'' @ variantId q @ '':1'' @
                   (if discountCode q = [] then []
                    else ''?discount='' @ urlencoded (discountCode q))))"
proof -
  from new_URL_roundtrip [OF assms(1)] obtain u' where
    u': "new_URL (toString u) = Inr u'" "origin u' = origin u" "searchParams u' = []"
    by blast
  note f = handleCodeScan_checkout [OF assms, of db]
  have "\<exists>url. fst (handleCodeScan None db q) = Inr url"
    unfolding f by (rule productCheckoutURL_returns [OF u'(1)])
  moreover have "fst (handleCodeScan None db q) =
              Inr (origin u @ ''/cart/'' @ variantId q @ '':1'' @
                   (if discountCode q = [] then []
                    else ''?discount='' @ urlencoded (discountCode q)))"
    if n: "\<not> contains_gid (variantId q)" and c: "segment_chars (variantId q)"
  proof -
    have r: "replace_gid (variantId q) = variantId q"
      using n by (rule replace_gid_no_match)
    from c have "segment_chars (replace_gid (variantId q))"
      by (simp only: r)
    from productCheckoutURL_item [OF u'(1,3) this, of "Some (discountCode q)"]
    show ?thesis
      by (simp add: f r u'(2) truthy_Some)
  qed
  ultimately show ?thesis by blast
qed

theorem checkout_never_rejects_variant_witness:
  "fst (handleCodeScan None example_db (example_qrcode\<lparr>variantId := ''not-a-gid''\<rparr>)) =
     Inr ''https://shop.myshopify.com/cart/not-a-gid:1''"
proof -
  have u: "new_URL (shopDomain (example_qrcode\<lparr>variantId := ''not-a-gid''\<rparr>)) =
             Inr (origin_url ''https'' ''shop.myshopify.com'')"
    by code_simp
  have d: "destination (example_qrcode\<lparr>variantId := ''not-a-gid''\<rparr>) = ''checkout''"
    by (simp add: example_qrcode_def)
  have v: "\<not> contains_gid ''not-a-gid''" "segment_chars ''not-a-gid''"
    by code_simp+
  from checkout_never_rejects_variant [OF u d, of example_db] v
  show ?thesis
    by (simp add: example_qrcode_def origin_origin_url)
qed


section \<open>Scan handling\<close>

text \<open>
  C2, counterexample. The example record resolves to its cart URL when the counter is
  incremented; when the increment statement fails with \<open>SQLITE_BUSY\<close>, the same scan
  returns no URL but throws that error.
\<close>

theorem scan_count_failure_counterexample:
  "fst (handleCodeScan None example_db example_qrcode) =
     Inr ''https://shop.myshopify.com/cart/12345:1'' \<and>
   fst (handleCodeScan (Some ''SQLITE_BUSY'') example_db example_qrcode) =
     Inl (Query_rejected ''SQLITE_BUSY'')"
  by code_simp

text \<open>
  C2, as amended. A failure of the scan-count increment makes the whole scan fail:
  \<open>handleCodeScan\<close> throws the error of the increment statement, returns no URL, and
  leaves the table as it was.
\<close>

theorem scan_count_failure_propagates:
  "handleCodeScan (Some e) db qrcode = (Inl (Query_rejected e), db)"
  by (simp add: handleCodeScan_def increaseScanCount_def)

theorem scan_count_failure_propagates_witness:
  "handleCodeScan (Some ''SQLITE_BUSY'') example_db example_qrcode =
     (Inl (Query_rejected ''SQLITE_BUSY''), example_db)"
  by (rule scan_count_failure_propagates)

text \<open>
  C3, counterexample. The example record with the destination \<open>banana\<close>: resolution
  fails, and the counter of the record has gone from 0 to 1 all the same.
\<close>

theorem failed_resolution_still_counts_counterexample:
  "fst (handleCodeScan None example_db (example_qrcode\<lparr>destination := ''banana''\<rparr>)) =
     Inl (Thrown_string (''Unrecognized destination '' @ [CHR 0x22] @ ''banana'' @ [CHR 0x22])) \<and>
   scans_of example_db 1 = Some 0 \<and>
   scans_of (snd (handleCodeScan None example_db (example_qrcode\<lparr>destination := ''banana''\<rparr>))) 1 =
     Some 1"
  by code_simp

text \<open>
  C3, as amended. The scan counter of a record never decreases under any operation
  that writes to the table (create, update, delete, scan). A scan whose increment
  statement runs adds exactly one to the counter of the scanned record, whether
  destination resolution then succeeds or fails, and leaves every other counter alone; a
  scan whose increment statement fails changes no counter.
\<close>

theorem scan_counter_monotone:
  "(scans_of db i = Some n \<longrightarrow> scans_of (perform op db) i = Some m \<longrightarrow> n \<le> m) \<and>
   (scans_of db (id' q) = Some n \<longrightarrow>
      scans_of (snd (handleCodeScan None db q)) (id' q) = Some (n + 1)) \<and>
   (i \<noteq> id' q \<longrightarrow> scans_of (snd (handleCodeScan err db q)) i = scans_of db i) \<and>
   scans_of (snd (handleCodeScan (Some e) db q)) i = scans_of db i"
proof -
  have "n \<le> m" if "scans_of db i = Some n" "scans_of (perform op db) i = Some m"
  proof (cases op)
    case (Create err now c)
    with that scans_of_create [OF that(1), of err now c] show ?thesis by simp
  next
    case (Update err j c)
    with that show ?thesis by (simp add: scans_of_update)
  next
    case (Delete err j)
    with that scans_of_delete [of err db j i m] show ?thesis by simp
  next
    case (HandleCodeScan err c)
    with that show ?thesis by (auto simp: scans_of_scan split: if_splits)
  qed
  then show ?thesis
    by (simp add: scans_of_scan)
qed

theorem scan_counter_monotone_witness:
  "scans_of example_db 1 = Some 0 \<and>
   scans_of (perform (HandleCodeScan None example_qrcode) example_db) 1 = Some 1 \<and>
   (0::nat) \<le> 1 \<and>
   scans_of (snd (handleCodeScan None example_db example_qrcode)) (id' example_qrcode) =
     Some (0 + 1)"
proof -
  have a: "scans_of example_db 1 = Some 0" "scans_of example_db (id' example_qrcode) = Some 0"
    "scans_of (perform (HandleCodeScan None example_qrcode) example_db) 1 = Some 1"
    by code_simp+
  from scan_counter_monotone [of example_db 1 0 "HandleCodeScan None example_qrcode" 1
      example_qrcode] a
  show ?thesis by simp
qed


section \<open>The record store\<close>

text \<open>
  C4, counterexample. The example table has no record 7; updating record 7 throws
  nothing: it returns \<open>true\<close> and leaves the table as it was.
\<close>

theorem update_missing_id_counterexample:
  "7 \<notin> ids_of example_db \<and>
   update None example_db 7 (example_qrcode\<lparr>title := ''Cup''\<rparr>) = (Inr True, example_db)"
  by (simp add: ids_of_def example_db_def example_qrcode_def update_def)

text \<open>
  C4, as amended. When its statement runs, \<open>update\<close> returns \<open>true\<close> for every
  identifier. For an identifier that is not in the table it changes nothing. In every row
  with the identifier it replaces exactly the mutable fields (title, product id, variant
  id, handle, discount id, discount code, destination) by the supplied values and keeps
  the identifier, shop domain, scan counter and creation time; every other row is kept.
\<close>

theorem update_replaces_mutable_fields:
  "fst (update None db i q) = Inr True \<and>
   (i \<notin> ids_of db \<longrightarrow> snd (update None db i q) = db) \<and>
   seq (snd (update None db i q)) = seq db \<and>
   length (rows (snd (update None db i q))) = length (rows db) \<and>
   (\<forall>k < length (rows db).
      let r = rows db ! k; r' = rows (snd (update None db i q)) ! k in
      if id' r = i then
        title r' = title q \<and> productId r' = productId q \<and> variantId r' = variantId q \<and>
        handle r' = handle q \<and> discountId r' = discountId q \<and>
        discountCode r' = discountCode q \<and> destination r' = destination q \<and>
        id' r' = id' r \<and> shopDomain r' = shopDomain r \<and> scans r' = scans r \<and>
        createdAt r' = createdAt r \<and> imageUrl r' = imageUrl r
      else r' = r)"
proof -
  have "map (\<lambda>r. if id' r = i then f r else r) (rows db) = rows db" if "i \<notin> ids_of db" for f
    using that by (auto simp: ids_of_def intro!: map_idI)
  then show ?thesis
    by (simp add: update_def Let_def)
qed

theorem update_replaces_mutable_fields_witness:
  "update None example_db 1 (example_qrcode\<lparr>title := ''Cup'', destination := ''product''\<rparr>) =
     (Inr True,
      example_db\<lparr>rows := [example_qrcode\<lparr>title := ''Cup'', destination := ''product''\<rparr>]\<rparr>)"
proof -
  from update_replaces_mutable_fields [of example_db 1
      "example_qrcode\<lparr>title := ''Cup'', destination := ''product''\<rparr>"]
  have "fst (update None example_db 1
               (example_qrcode\<lparr>title := ''Cup'', destination := ''product''\<rparr>)) = Inr True"
    by (rule conjunct1)
  moreover have "snd (update None example_db 1
                        (example_qrcode\<lparr>title := ''Cup'', destination := ''product''\<rparr>)) =
      example_db\<lparr>rows := [example_qrcode\<lparr>title := ''Cup'', destination := ''product''\<rparr>]\<rparr>"
    by (simp add: update_def example_db_def example_qrcode_def)
  ultimately show ?thesis
    by (simp add: prod_eq_iff)
qed


section \<open>The destinations\<close>

text \<open>
  C5. For every record whose destination is neither \<open>product\<close> nor \<open>checkout\<close>, a scan
  never returns a redirect URL, whatever else happens; and when the scan reaches the
  dispatch (the increment statement ran and the shop domain parsed) it throws
  \<open>Unrecognized destination "<value>"\<close>, which carries the offending value.
\<close>

theorem unrecognized_destination_throws:
  assumes "destination q \<noteq> ''product''" and "destination q \<noteq> ''checkout''"
  shows "(\<forall>url. fst (handleCodeScan err db q) \<noteq> Inr url) \<and>
         (\<forall>u. new_URL (shopDomain q) = Inr u \<longrightarrow>
            fst (handleCodeScan None db q) =
              Inl (Thrown_string
                     (''Unrecognized destination '' @ [CHR 0x22] @ destination q @ [CHR 0x22])))"
proof -
  have "fst (handleCodeScan err db q) \<noteq> Inr url" for url
    using assms by (simp add: handleCodeScan_def split: sum.splits)
  moreover have "fst (handleCodeScan None db q) =
      Inl (Thrown_string
             (''Unrecognized destination '' @ [CHR 0x22] @ destination q @ [CHR 0x22]))"
    if "new_URL (shopDomain q) = Inr u" for u
    using assms that by (simp add: handleCodeScan_def increaseScanCount_None)
  ultimately show ?thesis by blast
qed

theorem unrecognized_destination_throws_witness:
  "fst (handleCodeScan None example_db (example_qrcode\<lparr>destination := ''banana''\<rparr>))
     \<noteq> Inr ''https://shop.myshopify.com/products/blue-mug'' \<and>
   fst (handleCodeScan None example_db (example_qrcode\<lparr>destination := ''banana''\<rparr>)) =
     Inl (Thrown_string (''Unrecognized destination '' @ [CHR 0x22] @ ''banana'' @ [CHR 0x22]))"
proof -
  have d: "destination (example_qrcode\<lparr>destination := ''banana''\<rparr>) \<noteq> ''product''"
    "destination (example_qrcode\<lparr>destination := ''banana''\<rparr>) \<noteq> ''checkout''"
    by simp_all
  have u: "new_URL (shopDomain (example_qrcode\<lparr>destination := ''banana''\<rparr>)) =
             Inr (origin_url ''https'' ''shop.myshopify.com'')"
    by code_simp
  note t = unrecognized_destination_throws [OF d, of None example_db]
  from t have a: "fst (handleCodeScan None example_db
                         (example_qrcode\<lparr>destination := ''banana''\<rparr>))
                    \<noteq> Inr ''https://shop.myshopify.com/products/blue-mug''"
    by blast
  from t u have "fst (handleCodeScan None example_db
                        (example_qrcode\<lparr>destination := ''banana''\<rparr>)) =
     Inl (Thrown_string (''Unrecognized destination '' @ [CHR 0x22] @
            destination (example_qrcode\<lparr>destination := ''banana''\<rparr>) @ [CHR 0x22]))"
    by blast
  then have b: "fst (handleCodeScan None example_db
                       (example_qrcode\<lparr>destination := ''banana''\<rparr>)) =
     Inl (Thrown_string (''Unrecognized destination '' @ [CHR 0x22] @ ''banana'' @ [CHR 0x22]))"
    by simp
  from a b show ?thesis by (rule conjI)
qed

text \<open>
  C6, counterexample. The example record with destination \<open>product\<close> and the discount
  code \<open>SUMMER SALE\<close> does not resolve to \<open><host>/discount/SUMMER SALE?redirect=...\<close>:
  the space of the code is percent-encoded in the path. In the same way the handle
  \<open>a b\<close>, with no discount code, gives \<open><host>/products/a%20b\<close>.
\<close>

theorem product_redirect_literal_counterexample:
  "destination (example_qrcode\<lparr>destination := ''product'', discountCode := ''SUMMER SALE''\<rparr>) =
     ''product'' \<and>
   fst (handleCodeScan None example_db
          (example_qrcode\<lparr>destination := ''product'', discountCode := ''SUMMER SALE''\<rparr>)) =
     Inr ''https://shop.myshopify.com/discount/SUMMER%20SALE?redirect=%2Fproducts%2Fblue-mug'' \<and>
   fst (handleCodeScan None example_db
          (example_qrcode\<lparr>destination := ''product'', discountCode := ''SUMMER SALE''\<rparr>)) \<noteq>
     Inr (''https://shop.myshopify.com'' @ ''/discount/'' @ ''SUMMER SALE'' @ ''?redirect='' @
          urlencoded (''/products/'' @ ''blue-mug'')) \<and>
   fst (handleCodeScan None example_db
          (example_qrcode\<lparr>destination := ''product'', handle := ''a b''\<rparr>)) =
     Inr ''https://shop.myshopify.com/products/a%20b'' \<and>
   fst (handleCodeScan None example_db
          (example_qrcode\<lparr>destination := ''product'', handle := ''a b''\<rparr>)) \<noteq>
     Inr (''https://shop.myshopify.com'' @ ''/products/'' @ ''a b'')"
  by code_simp

text \<open>
  C6, as amended. For every record with destination \<open>product\<close>: with no discount code
  (the empty string), resolution yields \<open><host>\<close> followed by the pathname that the URL
  class makes of \<open>/products/<handle>\<close>; with the discount code \<open>D\<close>, it yields
  \<open><host>\<close>, the pathname made of \<open>/discount/D\<close>, and
  \<open>?redirect=<urlencoded '/products/<handle>'>\<close>. When the handle (or \<open>D\<close>) has no
  slash, backslash, tab or newline and is not a dot segment, that pathname is
  \<open>/products/<handle>\<close> (or \<open>/discount/D\<close>) with the handle (or \<open>D\<close>) percent-encoded
  for a path; when it has no character of the path percent-encode set either, it is
  exactly \<open>/products/<handle>\<close> (or \<open>/discount/D\<close>).
\<close>

theorem product_redirect_url:
  assumes "new_URL (shopDomain q) = Inr u" and "destination q = ''product''"
  shows "(discountCode q = [] \<longrightarrow>
            fst (handleCodeScan None db q) =
              Inr (origin u @ pathname_of (''/products/'' @ handle q))) \<and>
         (discountCode q = [] \<longrightarrow> single_segment (handle q) \<longrightarrow>
            fst (handleCodeScan None db q) =
              Inr (origin u @ ''/products/'' @ path_encode (handle q))) \<and>
         (discountCode q = [] \<longrightarrow> plain_segment (handle q) \<longrightarrow>
            fst (handleCodeScan None db q) = Inr (origin u @ ''/products/'' @ handle q)) \<and>
         (discountCode q \<noteq> [] \<longrightarrow>
            fst (handleCodeScan None db q) =
              Inr (origin u @ pathname_of (''/discount/'' @ discountCode q) @ ''?redirect='' @
                   urlencoded (''/products/'' @ handle q))) \<and>
         (discountCode q \<noteq> [] \<longrightarrow> single_segment (discountCode q) \<longrightarrow>
            fst (handleCodeScan None db q) =
              Inr (origin u @ ''/discount/'' @ path_encode (discountCode q) @ ''?redirect='' @
                   urlencoded (''/products/'' @ handle q))) \<and>
         (discountCode q \<noteq> [] \<longrightarrow> plain_segment (discountCode q) \<longrightarrow>
            fst (handleCodeScan None db q) =
              Inr (origin u @ ''/discount/'' @ discountCode q @ ''?redirect='' @
                   urlencoded (''/products/'' @ handle q)))"
proof -
  note g = scan_product_general [OF assms, of db]
  have a: "fst (handleCodeScan None db q) =
             Inr (origin u @ pathname_of (''/products/'' @ handle q))"
    if "discountCode q = []"
    using g that by simp
  have b: "fst (handleCodeScan None db q) =
             Inr (origin u @ ''/products/'' @ path_encode (handle q))"
    if "discountCode q = []" "single_segment (handle q)"
    by (simp only: a [OF that(1)] pathname_products(1) [OF that(2)])
  have c: "fst (handleCodeScan None db q) = Inr (origin u @ ''/products/'' @ handle q)"
    if "discountCode q = []" "plain_segment (handle q)"
    by (simp only: a [OF that(1)] pathname_products(2) [OF that(2)])
  have d: "fst (handleCodeScan None db q) =
             Inr (origin u @ pathname_of (''/discount/'' @ discountCode q) @ ''?redirect='' @
                  urlencoded (''/products/'' @ handle q))"
    if "discountCode q \<noteq> []"
    using g that by simp
  have e: "fst (handleCodeScan None db q) =
             Inr (origin u @ ''/discount/'' @ path_encode (discountCode q) @ ''?redirect='' @
                  urlencoded (''/products/'' @ handle q))"
    if "discountCode q \<noteq> []" "single_segment (discountCode q)"
    by (simp only: d [OF that(1)] pathname_discount(1) [OF that(2)] append_assoc)
  have f: "fst (handleCodeScan None db q) =
             Inr (origin u @ ''/discount/'' @ discountCode q @ ''?redirect='' @
                  urlencoded (''/products/'' @ handle q))"
    if "discountCode q \<noteq> []" "plain_segment (discountCode q)"
    by (simp only: d [OF that(1)] pathname_discount(2) [OF that(2)] append_assoc)
  from a b c d e f show ?thesis by blast
qed

theorem product_redirect_url_witness:
  "fst (handleCodeScan None example_db
          (example_qrcode\<lparr>destination := ''product''\<rparr>)) =
     Inr ''https://shop.myshopify.com/products/blue-mug'' \<and>
   fst (handleCodeScan None example_db
          (example_qrcode\<lparr>destination := ''product'', discountCode := ''SAVE10''\<rparr>)) =
     Inr ''https://shop.myshopify.com/discount/SAVE10?redirect=%2Fproducts%2Fblue-mug'' \<and>
   fst (handleCodeScan None example_db
          (example_qrcode\<lparr>destination := ''product'', discountCode := ''SUMMER SALE''\<rparr>)) =
     Inr ''https://shop.myshopify.com/discount/SUMMER%20SALE?redirect=%2Fproducts%2Fblue-mug''"
proof -
  have u: "new_URL (shopDomain (example_qrcode\<lparr>destination := ''product''\<rparr>)) =
             Inr (origin_url ''https'' ''shop.myshopify.com'')"
    "new_URL (shopDomain (example_qrcode\<lparr>destination := ''product'',
                                          discountCode := ''SAVE10''\<rparr>)) =
             Inr (origin_url ''https'' ''shop.myshopify.com'')"
    "new_URL (shopDomain (example_qrcode\<lparr>destination := ''product'',
                                          discountCode := ''SUMMER SALE''\<rparr>)) =
             Inr (origin_url ''https'' ''shop.myshopify.com'')"
    by code_simp+
  have d: "destination (example_qrcode\<lparr>destination := ''product''\<rparr>) = ''product''"
    "destination (example_qrcode\<lparr>destination := ''product'', discountCode := ''SAVE10''\<rparr>) =
       ''product''"
    "destination (example_qrcode\<lparr>destination := ''product'',
                                 discountCode := ''SUMMER SALE''\<rparr>) = ''product''"
    by simp_all
  have p: "plain_segment ''blue-mug''" "plain_segment ''SAVE10''"
    "single_segment ''SUMMER SALE''"
    by code_simp+
  have e: "urlencoded ''/products/blue-mug'' = ''%2Fproducts%2Fblue-mug''"
    "path_encode ''SUMMER SALE'' = ''SUMMER%20SALE''"
    by code_simp+
  note t1 = product_redirect_url [OF u(1) d(1), of example_db]
  note t2 = product_redirect_url [OF u(2) d(2), of example_db]
  note t3 = product_redirect_url [OF u(3) d(3), of example_db]
  from conjunct1 [OF conjunct2 [OF conjunct2 [OF t1]]] p(1)
  have 1: "fst (handleCodeScan None example_db
          (example_qrcode\<lparr>destination := ''product''\<rparr>)) =
     Inr ''https://shop.myshopify.com/products/blue-mug''"
    by (simp add: example_qrcode_def origin_origin_url)
  from conjunct2 [OF conjunct2 [OF conjunct2 [OF conjunct2 [OF conjunct2 [OF t2]]]]] p(2) e(1)
  have 2: "fst (handleCodeScan None example_db
          (example_qrcode\<lparr>destination := ''product'', discountCode := ''SAVE10''\<rparr>)) =
     Inr ''https://shop.myshopify.com/discount/SAVE10?redirect=%2Fproducts%2Fblue-mug''"
    by (simp add: example_qrcode_def origin_origin_url)
  from conjunct1 [OF conjunct2 [OF conjunct2 [OF conjunct2 [OF conjunct2 [OF t3]]]]] p(3) e
  have 3: "fst (handleCodeScan None example_db
          (example_qrcode\<lparr>destination := ''product'', discountCode := ''SUMMER SALE''\<rparr>)) =
     Inr ''https://shop.myshopify.com/discount/SUMMER%20SALE?redirect=%2Fproducts%2Fblue-mug''"
    by (simp add: example_qrcode_def origin_origin_url)
  from 1 2 3 show ?thesis by simp
qed




section \<open>Creating and reading\<close>

text \<open>
  C8. For every input, \<open>create\<close> (when its statement runs) inserts a record whose scan
  counter is 0 and returns an identifier that no record of the table has and that was
  never handed out; exactly one row carries it afterwards, and reading it returns a
  record with the field values supplied at creation.
\<close>

theorem create_then_read:
  "\<exists>i db'. create None now db q = (Inr i, db') \<and>
      i \<notin> ids_of db \<and> seq db < i \<and>
      length (filter (\<lambda>r. id' r = i) (rows db')) = 1 \<and>
      (\<exists>r. read None cfg db' i = Inr (Some r) \<and>
           id' r = i \<and> scans r = 0 \<and>
           shopDomain r = shopDomain q \<and> title r = title q \<and>
           productId r = productId q \<and> variantId r = variantId q \<and>
           handle r = handle q \<and> discountId r = discountId q \<and>
           discountCode r = discountCode q \<and> destination r = destination q)"
proof -
  define i where "i = Suc (fold max (map id' (rows db)) (seq db))"
  have fresh: "i \<notin> ids_of db"
    unfolding i_def by (rule new_id_fresh)
  have "seq db < i"
    unfolding i_def using fold_max_ge_init [of "seq db" "map id' (rows db)"] by simp
  then show ?thesis
    using fresh filter_fresh [OF fresh]
    by (simp add: create_def read_def Let_def addImageUrl_def i_def [symmetric])
qed

theorem create_then_read_witness:
  "fst (create None ''2023-03-02 09:00:00'' example_db example_qrcode) = Inr 2 \<and>
   (\<exists>r. read None example_config
          (snd (create None ''2023-03-02 09:00:00'' example_db example_qrcode)) 2 =
            Inr (Some r) \<and>
        scans r = 0 \<and> handle r = ''blue-mug'' \<and> destination r = ''checkout'')"
proof -
  have c: "fst (create None ''2023-03-02 09:00:00'' example_db example_qrcode) = Inr 2"
    by code_simp
  from create_then_read [of "''2023-03-02 09:00:00''" example_db example_qrcode example_config]
  obtain i db' r where
    1: "create None ''2023-03-02 09:00:00'' example_db example_qrcode = (Inr i, db')" and
    2: "read None example_config db' i = Inr (Some r)" and
    3: "scans r = 0" "handle r = handle example_qrcode"
       "destination r = destination example_qrcode"
    by blast
  from 1 c have "i = 2"
    and "db' = snd (create None ''2023-03-02 09:00:00'' example_db example_qrcode)"
    by simp_all
  with 2 3 c show ?thesis
    by (auto simp: example_qrcode_def)
qed


section \<open>The empty discount code and the shop domain\<close>



text \<open>
  C10. \<open>handleCodeScan\<close> needs a shop domain with a scheme. For every record whose shop
  domain has none (such as \<open>shop.myshopify.com\<close>), whatever its destination, a scan
  whose increment statement ran throws the \<open>TypeError\<close> of the URL constructor, and the
  scan counter of the record has been incremented by then.
\<close>

theorem no_scheme_throws_after_increment:
  assumes "parse_scheme (url_trim (shopDomain q)) = None"
  shows "handleCodeScan None db q =
           (Inl TypeError_Invalid_URL,
            db\<lparr>rows := map (\<lambda>r. if id' r = id' q then r\<lparr>scans := scans r + 1\<rparr> else r)
                          (rows db)\<rparr>) \<and>
         (\<forall>n. scans_of db (id' q) = Some n \<longrightarrow>
            scans_of (snd (handleCodeScan None db q)) (id' q) = Some (n + 1))"
  using assms
  by (simp add: handleCodeScan_def increaseScanCount_def new_URL_def scans_of_increase)

theorem no_scheme_throws_after_increment_witness:
  "handleCodeScan None example_db (example_qrcode\<lparr>shopDomain := ''shop.myshopify.com''\<rparr>) =
     (Inl TypeError_Invalid_URL, example_db\<lparr>rows := [example_qrcode\<lparr>scans := 1\<rparr>]\<rparr>)"
proof -
  have "parse_scheme (url_trim (shopDomain
          (example_qrcode\<lparr>shopDomain := ''shop.myshopify.com''\<rparr>))) = None"
    by (simp add: no_colon_no_scheme)
  from no_scheme_throws_after_increment [OF this, of example_db]
  show ?thesis
    by (simp add: example_db_def example_qrcode_def)
qed

end
